theory Spec2Isabelle
  imports Main "HOL-Library.Sublist"
begin

section \<open>The request core of NSScript\<close>

text \<open>
  The theory embeds the two request methods of class \<open>NSScript\<close> (file
  \<^verbatim>\<open>nsdotjs.ts\<close>): \<^verbatim>\<open>makeNsHtmlRequest\<close> and \<^verbatim>\<open>getNsHtmlPage\<close>,
  with the private helper \<^verbatim>\<open>getRequestDomain\<close>. Both methods are \<^verbatim>\<open>async\<close>:
  each is cut at its \<^verbatim>\<open>await\<close>s into synchronous segments, every segment a
  function on the state, and the method itself is the composition of its segments for
  a call whose awaited promises settle. How a promise settles (the user-input handler,
  \<^verbatim>\<open>fetch\<close>, reading the response body) is an input of the model.
\<close>

subsection \<open>Values, errors and promises\<close>

text \<open>
  A payload value has the TypeScript type \<^verbatim>\<open>string | number | boolean\<close>. The number
  type is a parameter \<open>'n\<close>; its conversion to a string (ECMAScript's
  \<^verbatim>\<open>Number::toString\<close>) is taken from the environment.
\<close>

datatype 'n js_value = JsString string | JsNumber 'n | JsBoolean bool

text \<open>\<^verbatim>\<open>String(value)\<close>.\<close>

fun String_js :: "('n \<Rightarrow> string) \<Rightarrow> 'n js_value \<Rightarrow> string" where
  "String_js toStr (JsString s) = s"
| "String_js toStr (JsNumber n) = toStr n"
| "String_js toStr (JsBoolean b) = (if b then ''true'' else ''false'')"

text \<open>
  A thrown value: the class of the error object (what \<^verbatim>\<open>instanceof\<close> sees) and its
  message. \<^verbatim>\<open>new Error(msg)\<close> is \<open>Thrown ErrorClass msg\<close>; a failing \<^verbatim>\<open>fetch\<close>
  rejects with a \<^verbatim>\<open>TypeError\<close> or a \<^verbatim>\<open>DOMException\<close>.
\<close>

datatype error_class = ErrorClass | TypeErrorClass | DOMExceptionClass | OtherClass string

datatype js_error = Thrown (error_class: error_class) (message: string)

text \<open>A settled promise.\<close>

datatype 'a promise = Resolved 'a | Rejected js_error

text \<open>
  \<^verbatim>\<open>String.prototype.endsWith\<close> and \<^verbatim>\<open>String.prototype.includes\<close>, on the lists
  of code units.
\<close>

definition endsWith :: "string \<Rightarrow> string \<Rightarrow> bool" where
  "endsWith s searchString = suffix searchString s"

definition includes_str :: "string \<Rightarrow> string \<Rightarrow> bool" where
  "includes_str s searchString = sublist searchString s"

text \<open>
  \<^verbatim>\<open>Date.now().toString()\<close>: the time stamp is a non-negative integer, printed in
  decimal.
\<close>

function toString_nat :: "nat \<Rightarrow> string" where
  "toString_nat n =
     (if n < 10 then [''0123456789'' ! n]
      else toString_nat (n div 10) @ [''0123456789'' ! (n mod 10)])"
  by pat_completeness auto
termination
  by (relation "measure id") auto

subsection \<open>Requests, responses, documents\<close>

datatype redirect_mode = follow | manual

text \<open>
  What \<^verbatim>\<open>fetch\<close> is called with: the URL built by \<^verbatim>\<open>new URL(pagePath, safeBaseUrl)\<close>,
  the search parameters that replace its query (\<^verbatim>\<open>requestParams\<close>), and the options
  \<^verbatim>\<open>credentials\<close>, \<^verbatim>\<open>method\<close>, \<^verbatim>\<open>body\<close> (\<^verbatim>\<open>payloadParams\<close>) and \<^verbatim>\<open>redirect\<close>.
  A \<^verbatim>\<open>URLSearchParams\<close> is its list of name-value pairs, in the order of the
  \<^verbatim>\<open>append\<close> calls.
\<close>

record request =
  req_url :: string
  req_search :: "(string \<times> string) list"
  req_credentials :: string
  req_method :: string
  req_body :: "(string \<times> string) list"
  req_redirect :: redirect_mode

text \<open>
  Reading a response body (\<^verbatim>\<open>response.text()\<close>, \<^verbatim>\<open>response.blob()\<close>) gives the
  text, or rejects when the stream fails.
\<close>

datatype body_read = BodyText string | BodyError js_error

record response =
  status :: nat
  statusText :: string
  url :: string
  body :: body_read

text \<open>\<^verbatim>\<open>response.ok\<close>: the status is in the range 200 to 299.\<close>

definition ok :: "response \<Rightarrow> bool" where
  "ok response = (200 \<le> status response \<and> status response \<le> 299)"

text \<open>
  The parsed page, as far as \<^verbatim>\<open>storeAuth\<close> reads it: the values of the two token
  fields, where the page has them.
\<close>

record document =
  doc_chk :: "string option"
  doc_localid :: "string option"

subsection \<open>The state\<close>

text \<open>
  A continuation registered with \<^verbatim>\<open>.then\<close> on a body read and left detached
  (\<^verbatim>\<open>response.blob().then((_) => handleUnlock(this))\<close>): it runs in a later turn of the
  event loop, after the method that registered it has returned, and only if the read
  succeeds.
\<close>

datatype task = UnlockAfterBody body_read

text \<open>The calls a test double would log, in the order they happen.\<close>

datatype event =
    CheckPassed
  | CheckFailed
  | UserInputCalled
  | UserInputResolved
  | Locked
  | Unlocked
  | StatusInfo string
  | FetchIssued request
  | TextRead
  | TokensStored

text \<open>
  The fields of the \<open>NSScript\<close> instance that the two methods read or write, together
  with the browser state they touch: \<^verbatim>\<open>localStorage\<close>, the detached continuations
  not yet run, and the log of calls (which the code does not keep: it is there to
  state orderings).
\<close>

record NSScript =
  scriptName :: string
  scriptVersion :: string
  scriptAuthor :: string
  currentUser :: string
  isHtmlRequestInProgress :: bool
  localStorage :: "string \<rightharpoonup> string"
  pending :: "task list"
  trace :: "event list"

text \<open>
  What a call meets outside the instance: the number printer, \<^verbatim>\<open>Date.now()\<close>,
  \<^verbatim>\<open>window.location.host\<close>, the URL constructor (which throws on a string it cannot
  parse), how the promise of \<^verbatim>\<open>this.userInputHandler()\<close> settles, how \<^verbatim>\<open>fetch\<close>
  settles on a request, and \<^verbatim>\<open>parseHtml\<close>.
\<close>

record 'n env =
  numberToString :: "'n \<Rightarrow> string"
  dateNow :: nat
  locationHost :: string
  newURL :: "string \<Rightarrow> string \<Rightarrow> js_error + string"
  userInputHandler :: "unit promise"
  fetch :: "request \<Rightarrow> response promise"
  parseHtml :: "string \<Rightarrow> document"

definition logEvent :: "event \<Rightarrow> NSScript \<Rightarrow> NSScript" where
  "logEvent ev ctx = ctx\<lparr>trace := trace ctx @ [ev]\<rparr>"

subsection \<open>The simultaneity handlers and the token store\<close>

text \<open>
  Modelled from the spec: the module \<^verbatim>\<open>networking/html/handlers/simultaneity\<close>
  (\<^verbatim>\<open>handleCheck\<close>, \<^verbatim>\<open>handleLock\<close>, \<^verbatim>\<open>handleUnlock\<close>) is not among the sources.
  The spec's gate is "a single boolean, operation in flight", the field
  \<^verbatim>\<open>isHtmlRequestInProgress\<close>; an acquisition "returns false immediately if an
  operation is already in flight", and release "transitions back to not in flight" and
  is idempotent. \<^verbatim>\<open>makeNsHtmlRequest\<close> calls the three separately and says at the
  calls which of them writes the field: \<^verbatim>\<open>handleLock\<close> "locks submit buttons and sets
  the request in progress state", \<^verbatim>\<open>handleUnlock\<close> "unlocks submit buttons and clears
  the request in progress state"; \<^verbatim>\<open>handleCheck\<close> only answers.
\<close>

definition handleCheck :: "NSScript \<Rightarrow> bool" where
  "handleCheck ctx = (\<not> isHtmlRequestInProgress ctx)"

definition handleLock :: "NSScript \<Rightarrow> NSScript" where
  "handleLock ctx = logEvent Locked (ctx\<lparr>isHtmlRequestInProgress := True\<rparr>)"

definition handleUnlock :: "NSScript \<Rightarrow> NSScript" where
  "handleUnlock ctx = logEvent Unlocked (ctx\<lparr>isHtmlRequestInProgress := False\<rparr>)"

text \<open>
  Modelled from the spec: \<^verbatim>\<open>storeAuth\<close> (module \<^verbatim>\<open>networking/html/auth\<close>) is not
  among the sources. "Given a parsed response document, extracts the current token
  pair if present and overwrites the store. Extraction failure (fields absent) is
  silent: the store simply keeps the previous values." The store is the two
  \<^verbatim>\<open>localStorage\<close> items that \<^verbatim>\<open>makeNsHtmlRequest\<close> reads.
\<close>

definition storeAuth :: "document \<Rightarrow> NSScript \<Rightarrow> NSScript" where
  "storeAuth doc ctx =
     (let store1 = (case doc_chk doc of
                      None \<Rightarrow> localStorage ctx
                    | Some v \<Rightarrow> (localStorage ctx)(''lastKnownChk'' \<mapsto> v));
          store2 = (case doc_localid doc of
                      None \<Rightarrow> store1
                    | Some v \<Rightarrow> store1(''lastKnownLocalid'' \<mapsto> v))
      in logEvent TokensStored (ctx\<lparr>localStorage := store2\<rparr>))"

subsection \<open>makeNsHtmlRequest\<close>

definition getRequestDomain :: "'n env \<Rightarrow> string" where
  "getRequestDomain env =
     (if locationHost env = ''fast.nationstates.net'' then ''fast.nationstates.net''
      else ''www.nationstates.net'')"

definition scriptParamValue :: "NSScript \<Rightarrow> string" where
  "scriptParamValue ctx =
     scriptName ctx @ '' v'' @ scriptVersion ctx @ '' by '' @ scriptAuthor ctx
       @ '' in use by '' @ currentUser ctx"

text \<open>
  The search parameters: \<^verbatim>\<open>userclick\<close>, \<^verbatim>\<open>script\<close>, and \<^verbatim>\<open>template-overall\<close>
  unless the path ends with \<^verbatim>\<open>.cgi\<close>.
\<close>

definition requestParams :: "'n env \<Rightarrow> NSScript \<Rightarrow> string \<Rightarrow> (string \<times> string) list" where
  "requestParams env ctx pagePath =
     [(''userclick'', toString_nat (dateNow env)), (''script'', scriptParamValue ctx)]
       @ (if \<not> endsWith pagePath ''.cgi'' then [(''template-overall'', ''none'')] else [])"

text \<open>
  The form body. The payload is optional; when given, its entries are appended in the
  order of \<^verbatim>\<open>Object.entries\<close>. Then the two stored tokens are appended, each under
  the test \<^verbatim>\<open>if (lastKnownChk)\<close>, which a missing item (\<^verbatim>\<open>null\<close>) and the empty
  string both fail.
\<close>

definition authParam :: "NSScript \<Rightarrow> string \<Rightarrow> string \<Rightarrow> (string \<times> string) list" where
  "authParam ctx item name =
     (case localStorage ctx item of
        None \<Rightarrow> []
      | Some lastKnown \<Rightarrow> if lastKnown \<noteq> [] then [(name, lastKnown)] else [])"

definition payloadParams ::
  "'n env \<Rightarrow> NSScript \<Rightarrow> (string \<times> 'n js_value) list option \<Rightarrow> (string \<times> string) list" where
  "payloadParams env ctx payload =
     (case payload of
        None \<Rightarrow> []
      | Some entries \<Rightarrow> map (\<lambda>(key, v). (key, String_js (numberToString env) v)) entries)
       @ authParam ctx ''lastKnownChk'' ''chk''
       @ authParam ctx ''lastKnownLocalid'' ''localid''"

text \<open>
  First segment, up to \<^verbatim>\<open>await this.userInputHandler()\<close>: the simultaneity check,
  then either the rejected promise or the call of the handler.
\<close>

datatype entry = EntryRejected js_error | AwaitsUserInput

definition makeNsHtmlRequest_entry :: "NSScript \<Rightarrow> entry \<times> NSScript" where
  "makeNsHtmlRequest_entry ctx =
     (if \<not> handleCheck ctx then
        (EntryRejected (Thrown ErrorClass ''Simultaneity check failed. Please try again.''),
         logEvent CheckFailed ctx)
      else (AwaitsUserInput, logEvent UserInputCalled (logEvent CheckPassed ctx)))"

text \<open>
  Second segment, from the handler's promise resolving to the call of \<^verbatim>\<open>fetch\<close>:
  \<^verbatim>\<open>handleLock\<close>, then inside \<^verbatim>\<open>try\<close> the status line, the parameters, the URL and
  the call. An exception of the URL constructor is caught: \<^verbatim>\<open>handleUnlock\<close>, rethrow.
\<close>

definition makeNsHtmlRequest_afterInput ::
  "'n env \<Rightarrow> string \<Rightarrow> (string \<times> 'n js_value) list option \<Rightarrow> bool \<Rightarrow> NSScript
     \<Rightarrow> (js_error + request) \<times> NSScript" where
  "makeNsHtmlRequest_afterInput env pagePath payload followRedirects ctx =
     (let ctx1 = handleLock (logEvent UserInputResolved ctx);
          ctx2 = logEvent (StatusInfo (''Loading: '' @ pagePath @ ''...'')) ctx1;
          baseUrl = ''https://'' @ getRequestDomain env @ ''/'';
          safeBaseUrl = (if endsWith baseUrl ''/'' then baseUrl else baseUrl @ ''/'')
      in case newURL env pagePath safeBaseUrl of
           Inl err \<Rightarrow> (Inl err, handleUnlock ctx2)
         | Inr finalUrl \<Rightarrow>
             (let req = \<lparr>req_url = finalUrl,
                         req_search = requestParams env ctx2 pagePath,
                         req_credentials = ''include'',
                         req_method = ''POST'',
                         req_body = payloadParams env ctx2 payload,
                         req_redirect = (if followRedirects then follow else manual)\<rparr>
              in (Inr req, logEvent (FetchIssued req) ctx2)))"

text \<open>
  Third segment, from the promise of \<^verbatim>\<open>fetch\<close> settling to the return. A rejection
  is caught: \<^verbatim>\<open>handleUnlock\<close>, rethrow. On a response, \<^verbatim>\<open>shouldUnlockSimul\<close>
  registers the detached unlock on \<^verbatim>\<open>response.blob()\<close>, and the response is
  returned.
\<close>

definition makeNsHtmlRequest_afterFetch ::
  "bool \<Rightarrow> response promise \<Rightarrow> NSScript \<Rightarrow> response promise \<times> NSScript" where
  "makeNsHtmlRequest_afterFetch shouldUnlockSimul settled ctx =
     (case settled of
        Rejected err \<Rightarrow> (Rejected err, handleUnlock ctx)
      | Resolved response \<Rightarrow>
          (Resolved response,
           if shouldUnlockSimul
           then ctx\<lparr>pending := pending ctx @ [UnlockAfterBody (body response)]\<rparr>
           else ctx))"

text \<open>
  The method, for a call that no other call interleaves with. A rejection of the
  handler's promise leaves the function at the \<^verbatim>\<open>await\<close>, which stands before
  \<^verbatim>\<open>handleLock\<close> and outside \<^verbatim>\<open>try\<close>.
\<close>

definition makeNsHtmlRequest ::
  "'n env \<Rightarrow> string \<Rightarrow> (string \<times> 'n js_value) list option \<Rightarrow> bool \<Rightarrow> bool \<Rightarrow> NSScript
     \<Rightarrow> response promise \<times> NSScript" where
  "makeNsHtmlRequest env pagePath payload followRedirects shouldUnlockSimul ctx =
     (case makeNsHtmlRequest_entry ctx of
        (EntryRejected err, ctx1) \<Rightarrow> (Rejected err, ctx1)
      | (AwaitsUserInput, ctx1) \<Rightarrow>
          (case userInputHandler env of
             Rejected err \<Rightarrow> (Rejected err, ctx1)
           | Resolved _ \<Rightarrow>
               (case makeNsHtmlRequest_afterInput env pagePath payload followRedirects ctx1 of
                  (Inl err, ctx2) \<Rightarrow> (Rejected err, ctx2)
                | (Inr req, ctx2) \<Rightarrow>
                    makeNsHtmlRequest_afterFetch shouldUnlockSimul (fetch env req) ctx2)))"

subsection \<open>getNsHtmlPage\<close>

text \<open>
  After the request: a response that is not \<^verbatim>\<open>ok\<close> registers the detached unlock
  on \<^verbatim>\<open>response.text()\<close> and throws. Otherwise the text is awaited (a failed read
  throws from the \<^verbatim>\<open>await\<close>), then \<^verbatim>\<open>handleUnlock\<close>, the two marker tests, and
  last \<^verbatim>\<open>storeAuth(parseHtml(text))\<close>.
\<close>

definition getNsHtmlPage_afterRequest ::
  "'n env \<Rightarrow> response \<Rightarrow> NSScript \<Rightarrow> string promise \<times> NSScript" where
  "getNsHtmlPage_afterRequest env response ctx =
     (if \<not> ok response then
        (Rejected (Thrown ErrorClass (''Failed to fetch page: '' @ statusText response)),
         ctx\<lparr>pending := pending ctx @ [UnlockAfterBody (body response)]\<rparr>)
      else
        (case body response of
           BodyError err \<Rightarrow> (Rejected err, ctx)
         | BodyText text \<Rightarrow>
             (let ctx1 = handleUnlock (logEvent TextRead ctx) in
              if includes_str text ''Failed security check'' then
                (Rejected (Thrown ErrorClass
                   ''Failed security check. Please run reauth and try again.''), ctx1)
              else if includes_str text ''Border Patrol'' then
                (Rejected (Thrown ErrorClass
                   ''You need to solve the border patrol captcha before proceeding.''), ctx1)
              else (Resolved text, storeAuth (parseHtml env text) ctx1))))"

definition getNsHtmlPage ::
  "'n env \<Rightarrow> string \<Rightarrow> (string \<times> 'n js_value) list option \<Rightarrow> NSScript
     \<Rightarrow> string promise \<times> NSScript" where
  "getNsHtmlPage env pagePath payload ctx =
     (case makeNsHtmlRequest env pagePath payload True False ctx of
        (Rejected err, ctx1) \<Rightarrow> (Rejected err, ctx1)
      | (Resolved response, ctx1) \<Rightarrow> getNsHtmlPage_afterRequest env response ctx1)"

subsection \<open>The detached continuations\<close>

fun runTask :: "task \<Rightarrow> NSScript \<Rightarrow> NSScript" where
  "runTask (UnlockAfterBody (BodyText _)) ctx = handleUnlock ctx"
| "runTask (UnlockAfterBody (BodyError _)) ctx = ctx"

text \<open>The later turns of the event loop: every registered continuation has its turn.\<close>

definition runPending :: "NSScript \<Rightarrow> NSScript" where
  "runPending ctx = fold runTask (pending ctx) (ctx\<lparr>pending := []\<rparr>)"

text \<open>The calls logged between two states of one run.\<close>

definition eventsSince :: "NSScript \<Rightarrow> NSScript \<Rightarrow> event list" where
  "eventsSince before after = drop (length (trace before)) (trace after)"

subsection \<open>A test double\<close>

text \<open>
  Concrete inputs for the runs evaluated below: a fresh instance whose store holds
  \<^verbatim>\<open>lastKnownChk = "c1"\<close>, an environment whose handler resolves at once and whose
  \<^verbatim>\<open>fetch\<close> settles as given, with a parser that finds the token \<^verbatim>\<open>c2\<close> in a
  page that contains \<^verbatim>\<open>chk=c2\<close> and the token \<^verbatim>\<open>l2\<close> in a page that contains
  \<^verbatim>\<open>localid=l2\<close>, and a response with a readable body.
\<close>

definition demoScript :: NSScript where
  "demoScript =
     \<lparr>scriptName = ''demo'', scriptVersion = ''1.0'', scriptAuthor = ''author'',
      currentUser = ''user'', isHtmlRequestInProgress = False,
      localStorage = [''lastKnownChk'' \<mapsto> ''c1''], pending = [], trace = []\<rparr>"

definition demoEnv :: "response promise \<Rightarrow> nat env" where
  "demoEnv settled =
     \<lparr>numberToString = toString_nat, dateNow = 0,
      locationHost = ''www.nationstates.net'',
      newURL = (\<lambda>pagePath base. Inr (base @ pagePath)),
      userInputHandler = Resolved (),
      fetch = (\<lambda>req. settled),
      parseHtml = (\<lambda>text. \<lparr>doc_chk = (if sublist ''chk=c2'' text then Some ''c2'' else None),
                              doc_localid = (if sublist ''localid=l2'' text then Some ''l2''
                                             else None)\<rparr>)\<rparr>"

definition demoResponse :: "nat \<Rightarrow> string \<Rightarrow> response" where
  "demoResponse code text =
     \<lparr>status = code, statusText = [], url = ''https://www.nationstates.net/'',
      body = BodyText text\<rparr>"

text \<open>
  The request the test double's calls for \<^verbatim>\<open>page=x\<close> pass to \<^verbatim>\<open>fetch\<close>, with
  the given form body.
\<close>

definition demoPageRequest :: "(string \<times> string) list \<Rightarrow> request" where
  "demoPageRequest formFields =
     \<lparr>req_url = ''https://www.nationstates.net/page=x'',
      req_search = [(''userclick'', ''0''), (''script'', ''demo v1.0 by author in use by user''),
                    (''template-overall'', ''none'')],
      req_credentials = ''include'', req_method = ''POST'',
      req_body = formFields, req_redirect = follow\<rparr>"

section \<open>Basic facts\<close>

subsection \<open>What the handlers leave alone\<close>

lemma logEvent_fields [simp]:
  "scriptName (logEvent ev ctx) = scriptName ctx"
  "scriptVersion (logEvent ev ctx) = scriptVersion ctx"
  "scriptAuthor (logEvent ev ctx) = scriptAuthor ctx"
  "currentUser (logEvent ev ctx) = currentUser ctx"
  "isHtmlRequestInProgress (logEvent ev ctx) = isHtmlRequestInProgress ctx"
  "localStorage (logEvent ev ctx) = localStorage ctx"
  "pending (logEvent ev ctx) = pending ctx"
  "trace (logEvent ev ctx) = trace ctx @ [ev]"
  by (simp_all add: logEvent_def)

lemma handleLock_fields [simp]:
  "scriptName (handleLock ctx) = scriptName ctx"
  "scriptVersion (handleLock ctx) = scriptVersion ctx"
  "scriptAuthor (handleLock ctx) = scriptAuthor ctx"
  "currentUser (handleLock ctx) = currentUser ctx"
  "isHtmlRequestInProgress (handleLock ctx) = True"
  "localStorage (handleLock ctx) = localStorage ctx"
  "pending (handleLock ctx) = pending ctx"
  "trace (handleLock ctx) = trace ctx @ [Locked]"
  by (simp_all add: handleLock_def)

lemma handleUnlock_fields [simp]:
  "scriptName (handleUnlock ctx) = scriptName ctx"
  "scriptVersion (handleUnlock ctx) = scriptVersion ctx"
  "scriptAuthor (handleUnlock ctx) = scriptAuthor ctx"
  "currentUser (handleUnlock ctx) = currentUser ctx"
  "isHtmlRequestInProgress (handleUnlock ctx) = False"
  "localStorage (handleUnlock ctx) = localStorage ctx"
  "pending (handleUnlock ctx) = pending ctx"
  "trace (handleUnlock ctx) = trace ctx @ [Unlocked]"
  by (simp_all add: handleUnlock_def)

lemma requestParams_logged [simp]:
  "requestParams env (logEvent ev ctx) pagePath = requestParams env ctx pagePath"
  "requestParams env (handleLock ctx) pagePath = requestParams env ctx pagePath"
  by (simp_all add: requestParams_def scriptParamValue_def)

lemma payloadParams_logged [simp]:
  "payloadParams env (logEvent ev ctx) payload = payloadParams env ctx payload"
  "payloadParams env (handleLock ctx) payload = payloadParams env ctx payload"
  by (simp_all add: payloadParams_def authParam_def)

lemma afterInput_request:
  assumes "makeNsHtmlRequest_afterInput env pagePath payload followRedirects ctx = (Inr req, ctx')"
  shows "req_search req = requestParams env ctx pagePath"
    and "req_body req = payloadParams env ctx payload"
    and "req_method req = ''POST''"
    and "req_credentials req = ''include''"
    and "req_redirect req = (if followRedirects then follow else manual)"
    and "ctx' = logEvent (FetchIssued req)
           (logEvent (StatusInfo (''Loading: '' @ pagePath @ ''...''))
             (handleLock (logEvent UserInputResolved ctx)))"
  using assms
  by (auto simp: makeNsHtmlRequest_afterInput_def Let_def split: sum.splits)

lemma afterInput_throws:
  assumes "makeNsHtmlRequest_afterInput env pagePath payload followRedirects ctx = (Inl err, ctx')"
  shows "ctx' = handleUnlock
           (logEvent (StatusInfo (''Loading: '' @ pagePath @ ''...''))
             (handleLock (logEvent UserInputResolved ctx)))"
    and "\<exists>base. newURL env pagePath base = Inl err"
  using assms
  by (auto simp: makeNsHtmlRequest_afterInput_def Let_def split: sum.splits)


subsection \<open>The exits of makeNsHtmlRequest\<close>

lemma makeNsHtmlRequest_busy:
  assumes "isHtmlRequestInProgress ctx"
  shows "makeNsHtmlRequest env pagePath payload followRedirects shouldUnlockSimul ctx =
           (Rejected (Thrown ErrorClass ''Simultaneity check failed. Please try again.''),
            logEvent CheckFailed ctx)"
  using assms by (simp add: makeNsHtmlRequest_def makeNsHtmlRequest_entry_def handleCheck_def)

lemma makeNsHtmlRequest_free:
  assumes "\<not> isHtmlRequestInProgress ctx"
  shows "makeNsHtmlRequest env pagePath payload followRedirects shouldUnlockSimul ctx =
           (case userInputHandler env of
              Rejected err \<Rightarrow> (Rejected err, logEvent UserInputCalled (logEvent CheckPassed ctx))
            | Resolved _ \<Rightarrow>
                (case makeNsHtmlRequest_afterInput env pagePath payload followRedirects
                        (logEvent UserInputCalled (logEvent CheckPassed ctx)) of
                   (Inl err, ctx2) \<Rightarrow> (Rejected err, ctx2)
                 | (Inr req, ctx2) \<Rightarrow>
                     makeNsHtmlRequest_afterFetch shouldUnlockSimul (fetch env req) ctx2))"
  using assms by (simp add: makeNsHtmlRequest_def makeNsHtmlRequest_entry_def handleCheck_def)

lemma makeNsHtmlRequest_outcome [consumes 1, case_names busy input url network response]:
  assumes run: "makeNsHtmlRequest env pagePath payload followRedirects shouldUnlockSimul ctx = (out, ctx')"
  obtains
    (busy) "isHtmlRequestInProgress ctx"
      "out = Rejected (Thrown ErrorClass ''Simultaneity check failed. Please try again.'')"
      "ctx' = logEvent CheckFailed ctx"
  | (input) err where "\<not> isHtmlRequestInProgress ctx"
      "userInputHandler env = Rejected err" "out = Rejected err"
      "ctx' = logEvent UserInputCalled (logEvent CheckPassed ctx)"
  | (url) err where "\<not> isHtmlRequestInProgress ctx"
      "userInputHandler env = Resolved ()" "out = Rejected err"
      "\<exists>base. newURL env pagePath base = Inl err"
      "isHtmlRequestInProgress ctx' = False" "localStorage ctx' = localStorage ctx"
      "pending ctx' = pending ctx"
      "trace ctx' = trace ctx @ [CheckPassed, UserInputCalled, UserInputResolved, Locked,
         StatusInfo (''Loading: '' @ pagePath @ ''...''), Unlocked]"
  | (network) req err where "\<not> isHtmlRequestInProgress ctx"
      "userInputHandler env = Resolved ()" "fetch env req = Rejected err" "out = Rejected err"
      "req_search req = requestParams env ctx pagePath"
      "req_body req = payloadParams env ctx payload"
      "isHtmlRequestInProgress ctx' = False" "localStorage ctx' = localStorage ctx"
      "pending ctx' = pending ctx"
      "trace ctx' = trace ctx @ [CheckPassed, UserInputCalled, UserInputResolved, Locked,
         StatusInfo (''Loading: '' @ pagePath @ ''...''), FetchIssued req, Unlocked]"
  | (response) req response where "\<not> isHtmlRequestInProgress ctx"
      "userInputHandler env = Resolved ()" "fetch env req = Resolved response"
      "out = Resolved response"
      "req_search req = requestParams env ctx pagePath"
      "req_body req = payloadParams env ctx payload"
      "isHtmlRequestInProgress ctx' = True" "localStorage ctx' = localStorage ctx"
      "pending ctx' = pending ctx @ (if shouldUnlockSimul then [UnlockAfterBody (body response)] else [])"
      "trace ctx' = trace ctx @ [CheckPassed, UserInputCalled, UserInputResolved, Locked,
         StatusInfo (''Loading: '' @ pagePath @ ''...''), FetchIssued req]"
proof (cases "isHtmlRequestInProgress ctx")
  case True
  with run busy show ?thesis by (simp add: makeNsHtmlRequest_busy)
next
  case free: False
  note eq = run [unfolded makeNsHtmlRequest_free [OF free]]
  show ?thesis
  proof (cases "userInputHandler env")
    case (Rejected err)
    with eq free input show ?thesis by simp
  next
    case (Resolved u)
    then have ready: "userInputHandler env = Resolved ()" by simp
    obtain res ctx2 where seg:
      "makeNsHtmlRequest_afterInput env pagePath payload followRedirects
         (logEvent UserInputCalled (logEvent CheckPassed ctx)) = (res, ctx2)"
      by (cases "makeNsHtmlRequest_afterInput env pagePath payload followRedirects
         (logEvent UserInputCalled (logEvent CheckPassed ctx))") 
    show ?thesis
    proof (cases res)
      case (Inl err)
      with eq Resolved seg have "out = Rejected err" "ctx' = ctx2" by simp_all
      moreover note afterInput_throws [OF seg [unfolded Inl]]
      ultimately show ?thesis using free ready url [of err] by simp
    next
      case (Inr req)
      note built = afterInput_request [OF seg [unfolded Inr]]
      from eq Resolved seg Inr
      have fin: "makeNsHtmlRequest_afterFetch shouldUnlockSimul (fetch env req) ctx2 = (out, ctx')"
        by simp
      show ?thesis
      proof (cases "fetch env req")
        case (Rejected err)
        with fin have "out = Rejected err" "ctx' = handleUnlock ctx2"
          by (simp_all add: makeNsHtmlRequest_afterFetch_def)
        then show ?thesis using free ready Rejected built network [of req err] by simp
      next
        case fetched: (Resolved r)
        with fin have "out = Resolved r"
          "ctx' = (if shouldUnlockSimul
                   then ctx2\<lparr>pending := pending ctx2 @ [UnlockAfterBody (body r)]\<rparr> else ctx2)"
          by (auto simp add: makeNsHtmlRequest_afterFetch_def)
        then show ?thesis using free ready fetched built response [of req r] by simp
      qed
    qed
  qed
qed

text \<open>
  Every request a call passes to \<^verbatim>\<open>fetch\<close> is built from the state the call
  started in, after the check has passed and the handler's promise has resolved.
\<close>

lemma issued_request:
  assumes "makeNsHtmlRequest env pagePath payload followRedirects shouldUnlockSimul ctx = (out, ctx')"
    and "FetchIssued req \<in> set (eventsSince ctx ctx')"
  shows "req_search req = requestParams env ctx pagePath"
    and "req_body req = payloadParams env ctx payload"
    and "userInputHandler env = Resolved ()"
    and "\<not> isHtmlRequestInProgress ctx"
    and "\<exists>rest. eventsSince ctx ctx' =
           [CheckPassed, UserInputCalled, UserInputResolved, Locked,
            StatusInfo (''Loading: '' @ pagePath @ ''...''), FetchIssued req] @ rest"
  using assms
  by (cases rule: makeNsHtmlRequest_outcome; simp add: eventsSince_def)+

subsection \<open>The exits of getNsHtmlPage\<close>

lemma storeAuth_fields [simp]:
  "isHtmlRequestInProgress (storeAuth doc ctx) = isHtmlRequestInProgress ctx"
  "pending (storeAuth doc ctx) = pending ctx"
  "trace (storeAuth doc ctx) = trace ctx @ [TokensStored]"
  "localStorage (storeAuth doc ctx) ''lastKnownChk'' =
     (case doc_chk doc of None \<Rightarrow> localStorage ctx ''lastKnownChk'' | Some v \<Rightarrow> Some v)"
  "localStorage (storeAuth doc ctx) ''lastKnownLocalid'' =
     (case doc_localid doc of None \<Rightarrow> localStorage ctx ''lastKnownLocalid'' | Some v \<Rightarrow> Some v)"
  by (simp_all add: storeAuth_def Let_def split: option.splits)

lemma storeAuth_localStorage:
  "localStorage a = localStorage b \<Longrightarrow>
   localStorage (storeAuth doc a) = localStorage (storeAuth doc b)"
  by (simp add: storeAuth_def Let_def split: option.splits)

lemma getNsHtmlPage_outcome
  [consumes 1, case_names busy input url network transport unreadable security patrol success]:
  assumes run: "getNsHtmlPage env pagePath payload ctx = (out, ctx')"
  obtains
    (busy) "isHtmlRequestInProgress ctx"
      "out = Rejected (Thrown ErrorClass ''Simultaneity check failed. Please try again.'')"
      "ctx' = logEvent CheckFailed ctx"
  | (input) err where "\<not> isHtmlRequestInProgress ctx"
      "userInputHandler env = Rejected err" "out = Rejected err"
      "ctx' = logEvent UserInputCalled (logEvent CheckPassed ctx)"
  | (url) err where "\<not> isHtmlRequestInProgress ctx"
      "userInputHandler env = Resolved ()" "out = Rejected err"
      "\<exists>base. newURL env pagePath base = Inl err"
      "isHtmlRequestInProgress ctx' = False" "localStorage ctx' = localStorage ctx"
      "pending ctx' = pending ctx"
      "trace ctx' = trace ctx @ [CheckPassed, UserInputCalled, UserInputResolved, Locked,
         StatusInfo (''Loading: '' @ pagePath @ ''...''), Unlocked]"
  | (network) req err where "\<not> isHtmlRequestInProgress ctx"
      "userInputHandler env = Resolved ()" "fetch env req = Rejected err" "out = Rejected err"
      "isHtmlRequestInProgress ctx' = False" "localStorage ctx' = localStorage ctx"
      "pending ctx' = pending ctx"
      "trace ctx' = trace ctx @ [CheckPassed, UserInputCalled, UserInputResolved, Locked,
         StatusInfo (''Loading: '' @ pagePath @ ''...''), FetchIssued req, Unlocked]"
  | (transport) req response where "\<not> isHtmlRequestInProgress ctx"
      "userInputHandler env = Resolved ()" "fetch env req = Resolved response"
      "\<not> ok response"
      "out = Rejected (Thrown ErrorClass (''Failed to fetch page: '' @ statusText response))"
      "isHtmlRequestInProgress ctx' = True" "localStorage ctx' = localStorage ctx"
      "pending ctx' = pending ctx @ [UnlockAfterBody (body response)]"
      "trace ctx' = trace ctx @ [CheckPassed, UserInputCalled, UserInputResolved, Locked,
         StatusInfo (''Loading: '' @ pagePath @ ''...''), FetchIssued req]"
  | (unreadable) req response err where "\<not> isHtmlRequestInProgress ctx"
      "userInputHandler env = Resolved ()" "fetch env req = Resolved response"
      "ok response" "body response = BodyError err" "out = Rejected err"
      "isHtmlRequestInProgress ctx' = True" "localStorage ctx' = localStorage ctx"
      "pending ctx' = pending ctx"
      "trace ctx' = trace ctx @ [CheckPassed, UserInputCalled, UserInputResolved, Locked,
         StatusInfo (''Loading: '' @ pagePath @ ''...''), FetchIssued req]"
  | (security) req response page where "\<not> isHtmlRequestInProgress ctx"
      "userInputHandler env = Resolved ()" "fetch env req = Resolved response"
      "ok response" "body response = BodyText page"
      "includes_str page ''Failed security check''"
      "out = Rejected (Thrown ErrorClass
         ''Failed security check. Please run reauth and try again.'')"
      "isHtmlRequestInProgress ctx' = False" "localStorage ctx' = localStorage ctx"
      "pending ctx' = pending ctx"
      "trace ctx' = trace ctx @ [CheckPassed, UserInputCalled, UserInputResolved, Locked,
         StatusInfo (''Loading: '' @ pagePath @ ''...''), FetchIssued req, TextRead, Unlocked]"
  | (patrol) req response page where "\<not> isHtmlRequestInProgress ctx"
      "userInputHandler env = Resolved ()" "fetch env req = Resolved response"
      "ok response" "body response = BodyText page"
      "\<not> includes_str page ''Failed security check''" "includes_str page ''Border Patrol''"
      "out = Rejected (Thrown ErrorClass
         ''You need to solve the border patrol captcha before proceeding.'')"
      "isHtmlRequestInProgress ctx' = False" "localStorage ctx' = localStorage ctx"
      "pending ctx' = pending ctx"
      "trace ctx' = trace ctx @ [CheckPassed, UserInputCalled, UserInputResolved, Locked,
         StatusInfo (''Loading: '' @ pagePath @ ''...''), FetchIssued req, TextRead, Unlocked]"
  | (success) req response page where "\<not> isHtmlRequestInProgress ctx"
      "userInputHandler env = Resolved ()" "fetch env req = Resolved response"
      "ok response" "body response = BodyText page"
      "\<not> includes_str page ''Failed security check''" "\<not> includes_str page ''Border Patrol''"
      "out = Resolved page"
      "req_body req = payloadParams env ctx payload"
      "isHtmlRequestInProgress ctx' = False"
      "localStorage ctx' = localStorage (storeAuth (parseHtml env page) ctx)"
      "pending ctx' = pending ctx"
      "trace ctx' = trace ctx @ [CheckPassed, UserInputCalled, UserInputResolved, Locked,
         StatusInfo (''Loading: '' @ pagePath @ ''...''), FetchIssued req, TextRead, Unlocked,
         TokensStored]"
proof -
  obtain res ctx1 where raw:
    "makeNsHtmlRequest env pagePath payload True False ctx = (res, ctx1)"
    by (cases "makeNsHtmlRequest env pagePath payload True False ctx")
  from raw show ?thesis
  proof (cases rule: makeNsHtmlRequest_outcome)
    case busy
    with run raw show ?thesis using that(1) by (simp add: getNsHtmlPage_def)
  next
    case (input err)
    with run raw show ?thesis using that(2) by (simp add: getNsHtmlPage_def)
  next
    case (url err)
    with run raw show ?thesis using that(3) [of err] by (simp add: getNsHtmlPage_def)
  next
    case (network req err)
    with run raw show ?thesis using that(4) [of req err] by (simp add: getNsHtmlPage_def)
  next
    case (response req response)
    with run raw
    have after: "getNsHtmlPage_afterRequest env response ctx1 = (out, ctx')"
      by (simp add: getNsHtmlPage_def)
    show ?thesis
    proof (cases "ok response")
      case False
      with after have "out = Rejected (Thrown ErrorClass (''Failed to fetch page: '' @ statusText response))"
        "ctx' = ctx1\<lparr>pending := pending ctx1 @ [UnlockAfterBody (body response)]\<rparr>"
        by (simp_all add: getNsHtmlPage_afterRequest_def)
      with False response show ?thesis using that(5) [of req response] by simp
    next
      case good: True
      show ?thesis
      proof (cases "body response")
        case (BodyError err)
        with after good have "out = Rejected err" "ctx' = ctx1"
          by (simp_all add: getNsHtmlPage_afterRequest_def)
        with good BodyError response show ?thesis using that(6) [of req response err] by simp
      next
        case (BodyText page)
        show ?thesis
        proof (cases "includes_str page ''Failed security check''")
          case True
          with after good BodyText
          have "out = Rejected (Thrown ErrorClass
                  ''Failed security check. Please run reauth and try again.'')"
            "ctx' = handleUnlock (logEvent TextRead ctx1)"
            by (simp_all add: getNsHtmlPage_afterRequest_def Let_def)
          with good BodyText True response show ?thesis
            using that(7) [of req response page] by simp
        next
          case clean: False
          show ?thesis
          proof (cases "includes_str page ''Border Patrol''")
            case True
            with after good BodyText clean
            have "out = Rejected (Thrown ErrorClass
                    ''You need to solve the border patrol captcha before proceeding.'')"
              "ctx' = handleUnlock (logEvent TextRead ctx1)"
              by (simp_all add: getNsHtmlPage_afterRequest_def Let_def)
            with good BodyText clean True response show ?thesis
              using that(8) [of req response page] by simp
          next
            case False
            with after good BodyText clean
            have "out = Resolved page"
              "ctx' = storeAuth (parseHtml env page) (handleUnlock (logEvent TextRead ctx1))"
              by (simp_all add: getNsHtmlPage_afterRequest_def Let_def)
            moreover have "localStorage (storeAuth (parseHtml env page)
                (handleUnlock (logEvent TextRead ctx1)))
               = localStorage (storeAuth (parseHtml env page) ctx)"
              using response by (intro storeAuth_localStorage) simp
            ultimately show ?thesis
              using good BodyText clean False response that(9) [of req response page] by simp
          qed
        qed
      qed
    qed
  qed
qed

text \<open>The exits of a call whose request \<^verbatim>\<open>fetch\<close> has answered.\<close>

lemma page_issued:
  assumes "getNsHtmlPage env pagePath payload ctx = (out, ctx')"
    and "FetchIssued req \<in> set (eventsSince ctx ctx')"
    and "fetch env req = Resolved response"
  obtains (transport) "\<not> ok response"
      "out = Rejected (Thrown ErrorClass (''Failed to fetch page: '' @ statusText response))"
      "isHtmlRequestInProgress ctx'" "localStorage ctx' = localStorage ctx"
      "pending ctx' = pending ctx @ [UnlockAfterBody (body response)]"
      "TokensStored \<notin> set (eventsSince ctx ctx')"
  | (unreadable) err where "ok response" "body response = BodyError err" "out = Rejected err"
      "isHtmlRequestInProgress ctx'" "localStorage ctx' = localStorage ctx"
      "pending ctx' = pending ctx"
      "TokensStored \<notin> set (eventsSince ctx ctx')"
  | (security) page where "ok response" "body response = BodyText page"
      "includes_str page ''Failed security check''"
      "out = Rejected (Thrown ErrorClass
         ''Failed security check. Please run reauth and try again.'')"
      "\<not> isHtmlRequestInProgress ctx'" "localStorage ctx' = localStorage ctx"
      "pending ctx' = pending ctx"
      "TokensStored \<notin> set (eventsSince ctx ctx')"
  | (patrol) page where "ok response" "body response = BodyText page"
      "\<not> includes_str page ''Failed security check''" "includes_str page ''Border Patrol''"
      "out = Rejected (Thrown ErrorClass
         ''You need to solve the border patrol captcha before proceeding.'')"
      "\<not> isHtmlRequestInProgress ctx'" "localStorage ctx' = localStorage ctx"
      "pending ctx' = pending ctx"
      "TokensStored \<notin> set (eventsSince ctx ctx')"
  | (success) page where "ok response" "body response = BodyText page"
      "\<not> includes_str page ''Failed security check''" "\<not> includes_str page ''Border Patrol''"
      "out = Resolved page"
      "\<not> isHtmlRequestInProgress ctx'"
      "localStorage ctx' = localStorage (storeAuth (parseHtml env page) ctx)"
      "pending ctx' = pending ctx"
  using assms(1)
proof (cases rule: getNsHtmlPage_outcome)
  case busy
  with assms(2) show ?thesis by (simp add: eventsSince_def)
next
  case (input err)
  with assms(2) show ?thesis by (simp add: eventsSince_def)
next
  case (url err)
  with assms(2) show ?thesis by (simp add: eventsSince_def)
next
  case (network req' err)
  with assms(2,3) show ?thesis by (simp add: eventsSince_def)
next
  case (transport req' response')
  with assms(2,3) that(1) show ?thesis by (simp add: eventsSince_def)
next
  case (unreadable req' response' err)
  with assms(2,3) that(2) [of err] show ?thesis by (simp add: eventsSince_def)
next
  case (security req' response' page)
  with assms(2,3) that(3) [of page] show ?thesis by (simp add: eventsSince_def)
next
  case (patrol req' response' page)
  with assms(2,3) that(4) [of page] show ?thesis by (simp add: eventsSince_def)
next
  case (success req' response' page)
  with assms(2,3) that(5) [of page] show ?thesis by (simp add: eventsSince_def)
qed

subsection \<open>Running the detached continuations\<close>

lemma runPending_none:
  "pending ctx = [] \<Longrightarrow> isHtmlRequestInProgress (runPending ctx) = isHtmlRequestInProgress ctx"
  by (simp add: runPending_def)

lemma runPending_unlock:
  "pending ctx = [UnlockAfterBody (BodyText page)] \<Longrightarrow> \<not> isHtmlRequestInProgress (runPending ctx)"
  by (simp add: runPending_def)

subsection \<open>Evaluating concrete runs\<close>

lemmas run_defs =
  makeNsHtmlRequest_def makeNsHtmlRequest_entry_def makeNsHtmlRequest_afterInput_def
  makeNsHtmlRequest_afterFetch_def getNsHtmlPage_def getNsHtmlPage_afterRequest_def
  handleCheck_def handleLock_def handleUnlock_def logEvent_def storeAuth_def
  getRequestDomain_def scriptParamValue_def requestParams_def payloadParams_def authParam_def
  endsWith_def includes_str_def ok_def eventsSince_def runPending_def Let_def
  suffix_to_prefix prefix_code sublist_code

lemmas demo_defs = demoScript_def demoEnv_def demoResponse_def demoPageRequest_def

text \<open>
  The request that a \<^verbatim>\<open>getNsHtmlPage\<close> call of the test double issues for
  \<^verbatim>\<open>page=x\<close> without a payload, whatever the response is.
\<close>

lemma demo_page_issued:
  "FetchIssued (demoPageRequest [(''chk'', ''c1'')])
     \<in> set (eventsSince demoScript
         (snd (getNsHtmlPage (demoEnv (Resolved (demoResponse code page))) ''page=x'' None
            demoScript)))"
  by (simp add: run_defs demo_defs)

lemma demo_fetch: "fetch (demoEnv settled) req = settled"
  by (simp add: demoEnv_def)

lemma demo_raw_resolves:
  "fst (makeNsHtmlRequest (demoEnv (Resolved response)) ''page=x'' None True unlock demoScript)
     = Resolved response"
  by (simp add: run_defs demo_defs)

section \<open>The claims\<close>

subsection \<open>C9: the decoration-suppression parameter\<close>

text \<open>
  C9. For every request that \<^verbatim>\<open>makeNsHtmlRequest\<close> passes to \<^verbatim>\<open>fetch\<close>, the search
  parameters hold \<^verbatim>\<open>template-overall=none\<close> exactly when the page path does not end
  with \<^verbatim>\<open>.cgi\<close>; on a path with that suffix the parameter is absent.
\<close>

theorem template_overall_unless_cgi:
  assumes "FetchIssued req \<in> set (eventsSince ctx
             (snd (makeNsHtmlRequest env pagePath payload followRedirects shouldUnlockSimul ctx)))"
  shows "map_of (req_search req) ''template-overall'' =
           (if suffix ''.cgi'' pagePath then None else Some ''none'')"
proof -
  have "req_search req = requestParams env ctx pagePath"
    using issued_request(1) [OF surjective_pairing assms] .
  then show ?thesis by (simp add: requestParams_def endsWith_def)
qed

text \<open>
  The endorse handler's call: the path ends with \<^verbatim>\<open>.cgi\<close>, and the request carries
  no \<^verbatim>\<open>template-overall\<close>.
\<close>

theorem template_overall_unless_cgi_witness:
  "FetchIssued
     \<lparr>req_url = ''https://www.nationstates.net/cgi-bin/endorse.cgi'',
      req_search = [(''userclick'', ''0''), (''script'', ''demo v1.0 by author in use by user'')],
      req_credentials = ''include'', req_method = ''POST'',
      req_body = [(''nation'', ''testlandia''), (''action'', ''endorse''), (''chk'', ''c1'')],
      req_redirect = follow\<rparr>
     \<in> set (eventsSince demoScript
         (snd (makeNsHtmlRequest (demoEnv (Resolved (demoResponse 200 []))) ''cgi-bin/endorse.cgi''
            (Some [(''nation'', JsString ''testlandia''), (''action'', JsString ''endorse'')])
            True True demoScript)))
   \<and> map_of [(''userclick'', ''0''), (''script'', ''demo v1.0 by author in use by user'')]
        ''template-overall'' = None"
proof -
  have issued: "FetchIssued
     \<lparr>req_url = ''https://www.nationstates.net/cgi-bin/endorse.cgi'',
      req_search = [(''userclick'', ''0''), (''script'', ''demo v1.0 by author in use by user'')],
      req_credentials = ''include'', req_method = ''POST'',
      req_body = [(''nation'', ''testlandia''), (''action'', ''endorse''), (''chk'', ''c1'')],
      req_redirect = follow\<rparr>
     \<in> set (eventsSince demoScript
         (snd (makeNsHtmlRequest (demoEnv (Resolved (demoResponse 200 []))) ''cgi-bin/endorse.cgi''
            (Some [(''nation'', JsString ''testlandia''), (''action'', JsString ''endorse'')])
            True True demoScript)))"
    by (simp add: run_defs demo_defs)
  from template_overall_unless_cgi [OF issued] issued show ?thesis
    by (simp add: suffix_to_prefix prefix_code)
qed

subsection \<open>C4 and C8: the form body\<close>

text \<open>
  Two runs of the test double. In the first the store holds \<^verbatim>\<open>lastKnownChk = "c1"\<close>
  and the caller gives the field \<^verbatim>\<open>a = "1"\<close>; in the second the stored item is the
  empty string.
\<close>

lemma demo_page_request:
  "FetchIssued (demoPageRequest [(''a'', ''1''), (''chk'', ''c1'')])
     \<in> set (eventsSince demoScript
         (snd (makeNsHtmlRequest (demoEnv (Resolved (demoResponse 200 ''ok''))) ''page=x''
            (Some [(''a'', JsString ''1'')]) True True demoScript)))"
  by (simp add: run_defs demo_defs)

lemma demo_empty_token_request:
  "FetchIssued (demoPageRequest [(''a'', ''1'')])
     \<in> set (eventsSince (demoScript\<lparr>localStorage := [''lastKnownChk'' \<mapsto> []]\<rparr>)
         (snd (makeNsHtmlRequest (demoEnv (Resolved (demoResponse 200 ''ok''))) ''page=x''
            (Some [(''a'', JsString ''1'')]) True True
            (demoScript\<lparr>localStorage := [''lastKnownChk'' \<mapsto> []]\<rparr>))))"
  by (simp add: run_defs demo_defs)




text \<open>
  C8, as stated, fails: the claim sends a token field whenever a stored value is
  present. In the second run the item \<^verbatim>\<open>lastKnownChk\<close> is present in the store, as
  the empty string; the test \<^verbatim>\<open>if (lastKnownChk)\<close> fails on it and the body has no
  \<^verbatim>\<open>chk\<close> field.
\<close>

theorem empty_token_not_sent:
  "localStorage (demoScript\<lparr>localStorage := [''lastKnownChk'' \<mapsto> []]\<rparr>) ''lastKnownChk''
     = Some []
   \<and> FetchIssued (demoPageRequest [(''a'', ''1'')])
     \<in> set (eventsSince (demoScript\<lparr>localStorage := [''lastKnownChk'' \<mapsto> []]\<rparr>)
         (snd (makeNsHtmlRequest (demoEnv (Resolved (demoResponse 200 ''ok''))) ''page=x''
            (Some [(''a'', JsString ''1'')]) True True
            (demoScript\<lparr>localStorage := [''lastKnownChk'' \<mapsto> []]\<rparr>))))
   \<and> map_of (req_body (demoPageRequest [(''a'', ''1'')])) ''chk'' = None"
  using demo_empty_token_request by (simp add: demoPageRequest_def)

text \<open>
  C8, amended. Among the fields that \<^verbatim>\<open>makeNsHtmlRequest\<close> adds to the body after
  the caller's, \<^verbatim>\<open>chk\<close> (and likewise \<^verbatim>\<open>localid\<close>) is there if and only if the
  store holds a value for it that is not the empty string, and it carries that value;
  no added field has an empty value.
\<close>

theorem token_sent_iff_stored_nonempty:
  assumes "FetchIssued req \<in> set (eventsSince ctx
             (snd (makeNsHtmlRequest env pagePath payload followRedirects shouldUnlockSimul ctx)))"
    and "added = drop (length (case payload of None \<Rightarrow> [] | Some given \<Rightarrow> given)) (req_body req)"
  shows "map_of added ''chk'' =
           (if localStorage ctx ''lastKnownChk'' = Some [] then None
            else localStorage ctx ''lastKnownChk'')
         \<and> map_of added ''localid'' =
           (if localStorage ctx ''lastKnownLocalid'' = Some [] then None
            else localStorage ctx ''lastKnownLocalid'')
         \<and> [] \<notin> snd ` set added"
proof -
  have "req_body req = payloadParams env ctx payload"
    using issued_request(2) [OF surjective_pairing assms(1)] .
  then show ?thesis
    using assms(2)
    by (auto simp: payloadParams_def authParam_def split: option.splits)
qed

text \<open>The first run: \<^verbatim>\<open>chk\<close> is stored and sent, \<^verbatim>\<open>localid\<close> is neither.\<close>

theorem token_sent_iff_stored_nonempty_witness:
  "FetchIssued (demoPageRequest [(''a'', ''1''), (''chk'', ''c1'')])
     \<in> set (eventsSince demoScript
         (snd (makeNsHtmlRequest (demoEnv (Resolved (demoResponse 200 ''ok''))) ''page=x''
            (Some [(''a'', JsString ''1'')]) True True demoScript)))
   \<and> localStorage demoScript ''lastKnownChk'' = Some ''c1''
   \<and> localStorage demoScript ''lastKnownLocalid'' = None
   \<and> map_of (drop 1 (req_body (demoPageRequest [(''a'', ''1''), (''chk'', ''c1'')]))) ''chk''
     = Some ''c1''
   \<and> map_of (drop 1 (req_body (demoPageRequest [(''a'', ''1''), (''chk'', ''c1'')]))) ''localid''
     = None"
  using token_sent_iff_stored_nonempty [OF demo_page_request refl] demo_page_request
  by (simp add: demoScript_def demoPageRequest_def)

subsection \<open>C5: classification of a completed exchange\<close>

text \<open>
  C5. Once \<^verbatim>\<open>fetch\<close> has answered the request of a \<^verbatim>\<open>getNsHtmlPage\<close> call with a
  response, the outcome of the call is a function of that response alone, with a fixed
  precedence: a status outside 200 to 299 gives the transport failure whatever the
  body holds; otherwise the text is read, and the security-check marker is tested
  before the border-patrol marker, so a page with both markers gives the authentication
  failure; the call resolves with the text only when the status is in range and neither
  marker occurs. (A body that cannot be read rejects with the read's own error.)
\<close>

theorem classification_precedence:
  assumes "getNsHtmlPage env pagePath payload ctx = (out, ctx')"
    and "FetchIssued req \<in> set (eventsSince ctx ctx')"
    and "fetch env req = Resolved response"
  shows "out =
    (if \<not> ok response then
       Rejected (Thrown ErrorClass (''Failed to fetch page: '' @ statusText response))
     else case body response of
       BodyError err \<Rightarrow> Rejected err
     | BodyText page \<Rightarrow>
         if sublist ''Failed security check'' page then
           Rejected (Thrown ErrorClass
             ''Failed security check. Please run reauth and try again.'')
         else if sublist ''Border Patrol'' page then
           Rejected (Thrown ErrorClass
             ''You need to solve the border patrol captcha before proceeding.'')
         else Resolved page)"
  using assms by (cases rule: page_issued) (simp_all add: includes_str_def)

text \<open>
  Three runs: a page with both markers is the authentication failure; a 404 whose
  body looks like a success is the transport failure; a clean 200 resolves.
\<close>

theorem classification_precedence_witness:
  "fst (getNsHtmlPage (demoEnv (Resolved (demoResponse 200 ''Border Patrol. Failed security check.'')))
      ''page=x'' None demoScript)
     = Rejected (Thrown ErrorClass ''Failed security check. Please run reauth and try again.'')
   \<and> fst (getNsHtmlPage (demoEnv (Resolved (demoResponse 404 ''Success!''))) ''page=x'' None
      demoScript)
     = Rejected (Thrown ErrorClass ''Failed to fetch page: '')
   \<and> fst (getNsHtmlPage (demoEnv (Resolved (demoResponse 200 ''Success!''))) ''page=x'' None
      demoScript)
     = Resolved ''Success!''"
  using
    classification_precedence [OF surjective_pairing demo_page_issued demo_fetch,
      of 200 "''Border Patrol. Failed security check.''"]
    classification_precedence [OF surjective_pairing demo_page_issued demo_fetch, of 404 "''Success!''"]
    classification_precedence [OF surjective_pairing demo_page_issued demo_fetch, of 200 "''Success!''"]
  by (simp add: demoResponse_def ok_def sublist_code prefix_code)

subsection \<open>C10: a failed page leaves the token store alone\<close>

text \<open>
  C10. When \<^verbatim>\<open>getNsHtmlPage\<close> reads a page that contains the security-check marker
  or the border-patrol marker, it throws the corresponding error, and the token store
  (\<^verbatim>\<open>localStorage\<close>) is what it was before the call: the throw comes before
  \<^verbatim>\<open>parseHtml\<close> and \<^verbatim>\<open>storeAuth\<close>, which the run never calls.
\<close>

theorem failed_page_keeps_tokens:
  assumes "getNsHtmlPage env pagePath payload ctx = (out, ctx')"
    and "FetchIssued req \<in> set (eventsSince ctx ctx')"
    and "fetch env req = Resolved response"
    and "ok response"
    and "body response = BodyText page"
    and "sublist ''Failed security check'' page \<or> sublist ''Border Patrol'' page"
  shows "out = Rejected (Thrown ErrorClass
           (if sublist ''Failed security check'' page
            then ''Failed security check. Please run reauth and try again.''
            else ''You need to solve the border patrol captcha before proceeding.''))
         \<and> localStorage ctx' = localStorage ctx
         \<and> TokensStored \<notin> set (eventsSince ctx ctx')"
  using assms(1-3)
  by (cases rule: page_issued) (use assms(4-6) in \<open>simp_all add: includes_str_def\<close>)

text \<open>
  A page that holds both a fresh token and the border-patrol marker: the call throws,
  and the store still holds the old token although the parser would have found
  the new one.
\<close>

theorem failed_page_keeps_tokens_witness:
  "fst (getNsHtmlPage (demoEnv (Resolved (demoResponse 200 ''chk=c2 Border Patrol''))) ''page=x''
      None demoScript)
     = Rejected (Thrown ErrorClass
         ''You need to solve the border patrol captcha before proceeding.'')
   \<and> localStorage (snd (getNsHtmlPage
        (demoEnv (Resolved (demoResponse 200 ''chk=c2 Border Patrol''))) ''page=x'' None
        demoScript)) = localStorage demoScript
   \<and> TokensStored \<notin> set (eventsSince demoScript (snd (getNsHtmlPage
        (demoEnv (Resolved (demoResponse 200 ''chk=c2 Border Patrol''))) ''page=x'' None
        demoScript)))
   \<and> doc_chk (parseHtml (demoEnv (Resolved (demoResponse 200 ''chk=c2 Border Patrol'')))
        ''chk=c2 Border Patrol'') = Some ''c2''"
proof -
  have good: "ok (demoResponse 200 ''chk=c2 Border Patrol'')"
    and readable: "body (demoResponse 200 ''chk=c2 Border Patrol'') = BodyText ''chk=c2 Border Patrol''"
    and marked: "sublist ''Failed security check'' ''chk=c2 Border Patrol''
      \<or> sublist ''Border Patrol'' ''chk=c2 Border Patrol''"
    by (simp_all add: demoResponse_def ok_def sublist_code prefix_code)
  from failed_page_keeps_tokens [OF surjective_pairing demo_page_issued demo_fetch good readable marked]
  show ?thesis
    by (simp add: demoEnv_def sublist_code prefix_code)
qed

subsection \<open>C7: the failures and their types\<close>

text \<open>
  C7, as stated, fails: the claim makes the four failures distinguishable by type, the
  transport failure carrying the HTTP status. Each of them is thrown with
  \<^verbatim>\<open>new Error(...)\<close>, so all four have the one class \<^verbatim>\<open>Error\<close>; and the transport
  failure carries \<^verbatim>\<open>response.statusText\<close> in its message, not the status, so a 404
  and a 500 with the same (here empty) status text throw equal errors.
\<close>

theorem failures_share_one_class:
  "fst (getNsHtmlPage (demoEnv (Resolved (demoResponse 200 ''ok''))) ''page=x'' None
      (demoScript\<lparr>isHtmlRequestInProgress := True\<rparr>))
     = Rejected (Thrown ErrorClass ''Simultaneity check failed. Please try again.'')
   \<and> fst (getNsHtmlPage (demoEnv (Resolved (demoResponse 404 ''gone''))) ''page=x'' None demoScript)
     = Rejected (Thrown ErrorClass ''Failed to fetch page: '')
   \<and> fst (getNsHtmlPage (demoEnv (Resolved (demoResponse 500 ''down''))) ''page=x'' None demoScript)
     = Rejected (Thrown ErrorClass ''Failed to fetch page: '')
   \<and> fst (getNsHtmlPage (demoEnv (Resolved (demoResponse 200 ''Failed security check'')))
      ''page=x'' None demoScript)
     = Rejected (Thrown ErrorClass ''Failed security check. Please run reauth and try again.'')
   \<and> fst (getNsHtmlPage (demoEnv (Resolved (demoResponse 200 ''Border Patrol''))) ''page=x'' None
      demoScript)
     = Rejected (Thrown ErrorClass
         ''You need to solve the border patrol captcha before proceeding.'')"
  by (simp add: run_defs demo_defs)

text \<open>
  C7, amended. Where nothing else throws (the handler resolves, the URL parses,
  \<^verbatim>\<open>fetch\<close> answers and the body can be read), every failure of \<^verbatim>\<open>getNsHtmlPage\<close> is
  an object of class \<^verbatim>\<open>Error\<close> whose message is one of four: the simultaneity message
  (the gate was held), \<^verbatim>\<open>Failed to fetch page: \<close> followed by the status text of a
  response that was not ok, the security-check message, or the border-patrol message.
  The four messages are pairwise different whatever the status text, so a caller tells
  the failures apart by the message, and only by it.
\<close>

theorem failures_differ_by_message_only:
  assumes "getNsHtmlPage env pagePath payload ctx = (Rejected err, ctx')"
    and "userInputHandler env = Resolved ()"
    and "\<forall>base. \<exists>built. newURL env pagePath base = Inr built"
    and "\<forall>req. \<exists>response page. fetch env req = Resolved response \<and> body response = BodyText page"
  shows "error_class err = ErrorClass
     \<and> (isHtmlRequestInProgress ctx
          \<and> message err = ''Simultaneity check failed. Please try again.''
        \<or> (\<exists>req response. fetch env req = Resolved response \<and> \<not> ok response
             \<and> message err = ''Failed to fetch page: '' @ statusText response)
        \<or> message err = ''Failed security check. Please run reauth and try again.''
        \<or> message err = ''You need to solve the border patrol captcha before proceeding.'')
     \<and> distinct [''Simultaneity check failed. Please try again.'',
                 ''Failed to fetch page: '' @ anyStatusText,
                 ''Failed security check. Please run reauth and try again.'',
                 ''You need to solve the border patrol captcha before proceeding.'']"
proof -
  have "error_class err = ErrorClass
     \<and> (isHtmlRequestInProgress ctx
          \<and> message err = ''Simultaneity check failed. Please try again.''
        \<or> (\<exists>req response. fetch env req = Resolved response \<and> \<not> ok response
             \<and> message err = ''Failed to fetch page: '' @ statusText response)
        \<or> message err = ''Failed security check. Please run reauth and try again.''
        \<or> message err = ''You need to solve the border patrol captcha before proceeding.'')"
    using assms(1)
  proof (cases rule: getNsHtmlPage_outcome)
    case busy
    then show ?thesis by simp
  next
    case (input e)
    with assms(2) show ?thesis by simp
  next
    case (url e)
    with assms(3) show ?thesis by (metis sum.distinct(1))
  next
    case (network req e)
    with assms(4) show ?thesis by (metis promise.distinct(1))
  next
    case (transport req response)
    then show ?thesis by auto
  next
    case (unreadable req response e)
    with assms(4) show ?thesis by (metis promise.inject(1) body_read.distinct(1))
  next
    case (security req response page)
    then show ?thesis by simp
  next
    case (patrol req response page)
    then show ?thesis by simp
  next
    case (success req response page)
    then show ?thesis by simp
  qed
  then show ?thesis by simp
qed

text \<open>The 404 run of the test double.\<close>

theorem failures_differ_by_message_only_witness:
  "error_class (Thrown ErrorClass ''Failed to fetch page: '') = ErrorClass
   \<and> fst (getNsHtmlPage (demoEnv (Resolved (demoResponse 404 ''gone''))) ''page=x'' None demoScript)
     = Rejected (Thrown ErrorClass ''Failed to fetch page: '')
   \<and> ''Failed to fetch page: '' \<noteq> ''Failed security check. Please run reauth and try again.''"
proof -
  have thrown: "fst (getNsHtmlPage (demoEnv (Resolved (demoResponse 404 ''gone''))) ''page=x'' None
      demoScript) = Rejected (Thrown ErrorClass ''Failed to fetch page: '')"
    by (simp add: run_defs demo_defs)
  then have run: "getNsHtmlPage (demoEnv (Resolved (demoResponse 404 ''gone''))) ''page=x'' None
      demoScript
      = (Rejected (Thrown ErrorClass ''Failed to fetch page: ''),
         snd (getNsHtmlPage (demoEnv (Resolved (demoResponse 404 ''gone''))) ''page=x'' None
           demoScript))"
    by (simp add: prod_eq_iff)
  have ready: "userInputHandler (demoEnv (Resolved (demoResponse 404 ''gone''))) = Resolved ()"
    and parses: "\<forall>base. \<exists>built.
      newURL (demoEnv (Resolved (demoResponse 404 ''gone''))) ''page=x'' base = Inr built"
    and answers: "\<forall>req. \<exists>response page.
      fetch (demoEnv (Resolved (demoResponse 404 ''gone''))) req = Resolved response
      \<and> body response = BodyText page"
    by (simp_all add: demo_defs)
  from failures_differ_by_message_only [OF run ready parses answers, of "[]"] thrown
  show ?thesis by simp
qed

subsection \<open>C1: the gate when a call returns\<close>

text \<open>
  C1, as stated, fails: the claim has the gate false whenever \<^verbatim>\<open>makeNsHtmlRequest\<close>
  returns. On the success exit the method returns the response with the gate still
  held: the unlock is a continuation on \<^verbatim>\<open>response.blob()\<close> that the method
  registers and does not await (or, without \<^verbatim>\<open>shouldUnlockSimul\<close>, is left to
  \<^verbatim>\<open>getNsHtmlPage\<close>).
\<close>

theorem gate_held_at_successful_return:
  "fst (makeNsHtmlRequest (demoEnv (Resolved (demoResponse 200 ''ok''))) ''page=x'' None True True
      demoScript) = Resolved (demoResponse 200 ''ok'')
   \<and> isHtmlRequestInProgress
       (snd (makeNsHtmlRequest (demoEnv (Resolved (demoResponse 200 ''ok''))) ''page=x'' None True
          True demoScript))"
  by (simp add: run_defs demo_defs)

text \<open>
  C1, amended. Take a call that starts with the gate free and no continuation pending,
  in an environment where every response body can be read.

  \<^item> \<^verbatim>\<open>makeNsHtmlRequest\<close>: on every throwing exit (the handler's rejection, a URL
    that does not parse, a network error thrown by \<^verbatim>\<open>fetch\<close>) the gate is false when
    the call returns. On the success exit the gate is still held when the call
    returns; with \<^verbatim>\<open>shouldUnlockSimul\<close> the detached continuation releases it once
    the body has been read, without it the gate stays held for the caller.
  \<^item> \<^verbatim>\<open>getNsHtmlPage\<close>: the gate is held at the return exactly when the response
    was not ok (the transport failure, whose unlock is the detached continuation on
    \<^verbatim>\<open>response.text()\<close>); on success, authentication failure and challenge failure
    it is false at the return. Once the pending continuations have run it is false on
    every exit.
\<close>

theorem gate_after_return:
  assumes free: "\<not> isHtmlRequestInProgress ctx"
    and quiet: "pending ctx = []"
    and readable: "\<forall>req response. fetch env req = Resolved response
                     \<longrightarrow> (\<exists>page. body response = BodyText page)"
    and raw: "makeNsHtmlRequest env pagePath payload followRedirects shouldUnlockSimul ctx
                = (out, ctx')"
    and page: "getNsHtmlPage env pagePath payload ctx = (pageOut, pageCtx)"
  shows "isHtmlRequestInProgress ctx' = (\<exists>response. out = Resolved response)
     \<and> isHtmlRequestInProgress (runPending ctx')
         = ((\<exists>response. out = Resolved response) \<and> \<not> shouldUnlockSimul)
     \<and> isHtmlRequestInProgress pageCtx
         = (\<exists>req response. FetchIssued req \<in> set (eventsSince ctx pageCtx)
              \<and> fetch env req = Resolved response \<and> \<not> ok response)
     \<and> \<not> isHtmlRequestInProgress (runPending pageCtx)"
proof -
  from raw have "isHtmlRequestInProgress ctx' = (\<exists>response. out = Resolved response)
     \<and> isHtmlRequestInProgress (runPending ctx')
         = ((\<exists>response. out = Resolved response) \<and> \<not> shouldUnlockSimul)"
  proof (cases rule: makeNsHtmlRequest_outcome)
    case busy
    with free show ?thesis by simp
  next
    case (input err)
    with free quiet show ?thesis by (simp add: runPending_none)
  next
    case (url err)
    with quiet show ?thesis by (simp add: runPending_none)
  next
    case (network req err)
    with quiet show ?thesis by (simp add: runPending_none)
  next
    case (response req response)
    from readable response(3) obtain content where "body response = BodyText content" by blast
    with response quiet show ?thesis
      by (cases shouldUnlockSimul) (simp_all add: runPending_none runPending_unlock)
  qed
  moreover
  from page have "isHtmlRequestInProgress pageCtx
         = (\<exists>req response. FetchIssued req \<in> set (eventsSince ctx pageCtx)
              \<and> fetch env req = Resolved response \<and> \<not> ok response)
     \<and> \<not> isHtmlRequestInProgress (runPending pageCtx)"
  proof (cases rule: getNsHtmlPage_outcome)
    case busy
    with free show ?thesis by simp
  next
    case (input err)
    with free quiet show ?thesis by (simp add: runPending_none eventsSince_def)
  next
    case (url err)
    with quiet show ?thesis by (simp add: runPending_none eventsSince_def)
  next
    case (network req err)
    with quiet show ?thesis by (simp add: runPending_none eventsSince_def)
  next
    case (transport req response)
    from readable transport(3) obtain content where "body response = BodyText content" by blast
    with transport quiet show ?thesis
      by (auto simp add: runPending_unlock eventsSince_def)
  next
    case (unreadable req response err)
    with readable show ?thesis by (metis body_read.distinct(1))
  next
    case (security req response content)
    with quiet show ?thesis by (auto simp add: runPending_none eventsSince_def)
  next
    case (patrol req response content)
    with quiet show ?thesis by (auto simp add: runPending_none eventsSince_def)
  next
    case (success req response content)
    with quiet show ?thesis by (auto simp add: runPending_none eventsSince_def)
  qed
  ultimately show ?thesis by simp
qed

text \<open>
  The 404 run of the test double, as a raw request and as a page request: held at the
  return, released by the continuation.
\<close>

theorem gate_after_return_witness:
  "isHtmlRequestInProgress
     (snd (makeNsHtmlRequest (demoEnv (Resolved (demoResponse 404 ''gone''))) ''page=x'' None True
        True demoScript))
   \<and> \<not> isHtmlRequestInProgress (runPending
     (snd (makeNsHtmlRequest (demoEnv (Resolved (demoResponse 404 ''gone''))) ''page=x'' None True
        True demoScript)))
   \<and> isHtmlRequestInProgress
     (snd (getNsHtmlPage (demoEnv (Resolved (demoResponse 404 ''gone''))) ''page=x'' None
        demoScript))
   \<and> \<not> isHtmlRequestInProgress (runPending
     (snd (getNsHtmlPage (demoEnv (Resolved (demoResponse 404 ''gone''))) ''page=x'' None
        demoScript)))"
proof -
  have free: "\<not> isHtmlRequestInProgress demoScript" and quiet: "pending demoScript = []"
    by (simp_all add: demoScript_def)
  have readable: "\<forall>req response.
      fetch (demoEnv (Resolved (demoResponse 404 ''gone''))) req = Resolved response
      \<longrightarrow> (\<exists>page. body response = BodyText page)"
    by (simp add: demo_defs)
  have refused: "\<not> ok (demoResponse 404 ''gone'')"
    by (simp add: demoResponse_def ok_def)
  from gate_after_return [OF free quiet readable surjective_pairing surjective_pairing,
      of "''page=x''" None True True]
    demo_raw_resolves [of "demoResponse 404 ''gone''" True]
    demo_page_issued [of 404 "''gone''"] demo_fetch refused
  show ?thesis by auto
qed

subsection \<open>C3: the token update and the release of the gate\<close>

text \<open>
  C3, as stated, fails: the claim releases the gate only after the token-store update.
  \<^verbatim>\<open>getNsHtmlPage\<close> calls \<^verbatim>\<open>handleUnlock\<close> as soon as the text is read, before
  the marker tests and before \<^verbatim>\<open>storeAuth\<close>: in the log of a successful call the
  unlock precedes the store update.
\<close>

theorem unlock_logged_before_store:
  "eventsSince demoScript
     (snd (getNsHtmlPage (demoEnv (Resolved (demoResponse 200 ''chk=c2 localid=l2 Success!'')))
        ''page=x'' None demoScript))
   = [CheckPassed, UserInputCalled, UserInputResolved, Locked,
      StatusInfo ''Loading: page=x...'', FetchIssued (demoPageRequest [(''chk'', ''c1'')]),
      TextRead, Unlocked, TokensStored]"
  by (simp add: run_defs demo_defs)

text \<open>
  C3, amended. In every successful \<^verbatim>\<open>getNsHtmlPage\<close> call the gate is released
  before the token-store update, and the two are the last steps of one synchronous
  stretch (text read, unlock, store update, return) that no other call can enter. So
  when the call returns the gate is free and the store holds the tokens of the page,
  and the caller's next call, built from that state, sends the fresh pair (both
  non-empty) after its own fields.
\<close>

theorem tokens_stored_before_return:
  assumes first: "getNsHtmlPage env pagePath payload ctx = (Resolved page, ctx')"
    and fresh: "doc_chk (parseHtml env page) = Some chk"
      "doc_localid (parseHtml env page) = Some localid"
    and nonempty: "chk \<noteq> []" "localid \<noteq> []"
    and subsequent: "FetchIssued req \<in> set (eventsSince ctx'
       (snd (makeNsHtmlRequest env' pagePath' payload' followRedirects shouldUnlockSimul ctx')))"
  shows "(\<exists>before. eventsSince ctx ctx' = before @ [TextRead, Unlocked, TokensStored])
     \<and> \<not> isHtmlRequestInProgress ctx'
     \<and> localStorage ctx' ''lastKnownChk'' = Some chk
     \<and> localStorage ctx' ''lastKnownLocalid'' = Some localid
     \<and> drop (length (case payload' of None \<Rightarrow> [] | Some given \<Rightarrow> given)) (req_body req)
         = [(''chk'', chk), (''localid'', localid)]"
proof -
  from first have "(\<exists>before. eventsSince ctx ctx' = before @ [TextRead, Unlocked, TokensStored])
     \<and> \<not> isHtmlRequestInProgress ctx'
     \<and> localStorage ctx' = localStorage (storeAuth (parseHtml env page) ctx)"
    by (cases rule: getNsHtmlPage_outcome) (simp_all add: eventsSince_def)
  moreover from this fresh
  have store: "localStorage ctx' ''lastKnownChk'' = Some chk"
    "localStorage ctx' ''lastKnownLocalid'' = Some localid"
    by simp_all
  moreover have "req_body req = payloadParams env' ctx' payload'"
    using issued_request(2) [OF surjective_pairing subsequent] .
  with store nonempty
  have "drop (length (case payload' of None \<Rightarrow> [] | Some given \<Rightarrow> given)) (req_body req)
         = [(''chk'', chk), (''localid'', localid)]"
    by (simp add: payloadParams_def authParam_def split: option.splits)
  ultimately show ?thesis by simp
qed

text \<open>
  A page with fresh tokens \<^verbatim>\<open>c2\<close> and \<^verbatim>\<open>l2\<close>, then a second call with the field
  \<^verbatim>\<open>b = "2"\<close> from the state the first call returned.
\<close>

lemma demo_second_request:
  "FetchIssued (demoPageRequest [(''b'', ''2''), (''chk'', ''c2''), (''localid'', ''l2'')])
     \<in> set (eventsSince
         (snd (getNsHtmlPage (demoEnv (Resolved (demoResponse 200 ''chk=c2 localid=l2 Success!'')))
            ''page=x'' None demoScript))
         (snd (makeNsHtmlRequest (demoEnv (Resolved (demoResponse 200 ''ok''))) ''page=x''
            (Some [(''b'', JsString ''2'')]) True True
            (snd (getNsHtmlPage
               (demoEnv (Resolved (demoResponse 200 ''chk=c2 localid=l2 Success!'')))
               ''page=x'' None demoScript)))))"
  by (simp add: run_defs demo_defs)

theorem tokens_stored_before_return_witness:
  "\<not> isHtmlRequestInProgress
      (snd (getNsHtmlPage (demoEnv (Resolved (demoResponse 200 ''chk=c2 localid=l2 Success!'')))
         ''page=x'' None demoScript))
   \<and> localStorage
      (snd (getNsHtmlPage (demoEnv (Resolved (demoResponse 200 ''chk=c2 localid=l2 Success!'')))
         ''page=x'' None demoScript)) ''lastKnownChk'' = Some ''c2''
   \<and> drop (length [(''b'', JsString ''2'')])
        (req_body (demoPageRequest [(''b'', ''2''), (''chk'', ''c2''), (''localid'', ''l2'')]))
      = [(''chk'', ''c2''), (''localid'', ''l2'')]"
proof -
  have resolved: "fst (getNsHtmlPage
      (demoEnv (Resolved (demoResponse 200 ''chk=c2 localid=l2 Success!''))) ''page=x'' None
      demoScript) = Resolved ''chk=c2 localid=l2 Success!''"
    by (simp add: run_defs demo_defs)
  then have first: "getNsHtmlPage
      (demoEnv (Resolved (demoResponse 200 ''chk=c2 localid=l2 Success!''))) ''page=x'' None
      demoScript
      = (Resolved ''chk=c2 localid=l2 Success!'',
         snd (getNsHtmlPage (demoEnv (Resolved (demoResponse 200 ''chk=c2 localid=l2 Success!'')))
           ''page=x'' None demoScript))"
    by (simp add: prod_eq_iff)
  have fresh: "doc_chk (parseHtml (demoEnv (Resolved (demoResponse 200 ''chk=c2 localid=l2 Success!'')))
        ''chk=c2 localid=l2 Success!'') = Some ''c2''"
      "doc_localid (parseHtml (demoEnv (Resolved (demoResponse 200 ''chk=c2 localid=l2 Success!'')))
        ''chk=c2 localid=l2 Success!'') = Some ''l2''"
    and nonempty: "''c2'' \<noteq> []" "''l2'' \<noteq> []"
    by (simp_all add: demoEnv_def sublist_code prefix_code)
  from tokens_stored_before_return [OF first fresh nonempty demo_second_request]
  show ?thesis by simp
qed

subsection \<open>C6: readiness before the network call\<close>



subsection \<open>C2: two calls issued back to back\<close>

text \<open>
  C2 asks that the second of two calls issued without awaiting the first fails at once
  with the simultaneity error. A call is refused exactly when the gate is held when it
  starts (\<open>makeNsHtmlRequest_busy\<close> above: the rejection is immediate, the handler is
  not called and nothing is fetched). But the first call sets the gate only in its
  second segment, after \<^verbatim>\<open>await this.userInputHandler()\<close>; while it waits there the
  gate is still free. The run below issues two calls back to back from a free gate:
  both pass the check, and once the handler's promises resolve both lock and both
  fetch, with no unlock in between.
\<close>

theorem second_call_passes_check_while_first_waits:
  "fst (makeNsHtmlRequest_entry demoScript) = AwaitsUserInput
   \<and> fst (makeNsHtmlRequest_entry (snd (makeNsHtmlRequest_entry demoScript))) = AwaitsUserInput
   \<and> eventsSince demoScript
       (snd (makeNsHtmlRequest_afterInput (demoEnv (Resolved (demoResponse 200 ''ok'')))
          ''page=x'' (Some [(''b'', JsString ''2'')]) True
          (snd (makeNsHtmlRequest_afterInput (demoEnv (Resolved (demoResponse 200 ''ok'')))
             ''page=x'' (Some [(''a'', JsString ''1'')]) True
             (snd (makeNsHtmlRequest_entry (snd (makeNsHtmlRequest_entry demoScript))))))))
     = [CheckPassed, UserInputCalled, CheckPassed, UserInputCalled,
        UserInputResolved, Locked, StatusInfo ''Loading: page=x...'',
        FetchIssued (demoPageRequest [(''a'', ''1''), (''chk'', ''c1'')]),
        UserInputResolved, Locked, StatusInfo ''Loading: page=x...'',
        FetchIssued (demoPageRequest [(''b'', ''2''), (''chk'', ''c1'')])]"
  by (simp add: run_defs demo_defs)

end
